theory Spec2Isabelle
  imports Main
begin

section \<open>Python strings\<close>

text \<open>
  A Python \<^verbatim>\<open>str\<close> is a sequence of Unicode code points, so it is modelled as a list of
  natural numbers. The field sentinels of \<^verbatim>\<open>index.py\<close> are Japanese literals and cannot be
  written as HOL string literals; they are given by their code points. ASCII literals of
  the source (tag names, class names, paths) are written \<open>py ''...''\<close>.
\<close>

type_synonym pystr = "nat list"

definition py :: "string \<Rightarrow> pystr" where
  "py s = map of_char s"

text \<open>
  \<^verbatim>\<open>str.isspace\<close> for one code point: the characters that \<^verbatim>\<open>str.strip()\<close> removes and
  that the regular expression class \<^verbatim>\<open>\S\<close> excludes.
\<close>

definition isspace :: "nat \<Rightarrow> bool" where
  "isspace c \<longleftrightarrow>
     (0x09 \<le> c \<and> c \<le> 0x0D) \<or> (0x1C \<le> c \<and> c \<le> 0x20) \<or> c = 0x85 \<or> c = 0xA0 \<or>
     c = 0x1680 \<or> (0x2000 \<le> c \<and> c \<le> 0x200A) \<or> c = 0x2028 \<or> c = 0x2029 \<or>
     c = 0x202F \<or> c = 0x205F \<or> c = 0x3000"

text \<open>\<^verbatim>\<open>s.strip()\<close>: leading and trailing white space removed.\<close>

definition strip :: "pystr \<Rightarrow> pystr" where
  "strip s = rev (dropWhile isspace (rev (dropWhile isspace s)))"

text \<open>
  \<^verbatim>\<open>re.compile(r"\S+").findall(value)\<close>: the maximal runs of non-space characters. This
  is how the tree builder turns the value of a \<^verbatim>\<open>class\<close> attribute into a list of
  class names. \<open>cur\<close> is the run being read.
\<close>

fun nonwhitespace_runs :: "pystr \<Rightarrow> pystr \<Rightarrow> pystr list" where
  "nonwhitespace_runs cur [] = (if cur = [] then [] else [cur])"
| "nonwhitespace_runs cur (c # cs) =
     (if isspace c
      then (if cur = [] then nonwhitespace_runs [] cs else cur # nonwhitespace_runs [] cs)
      else nonwhitespace_runs (cur @ [c]) cs)"

text \<open>\<^verbatim>\<open>' '.join(xs)\<close>\<close>

fun join_space :: "pystr list \<Rightarrow> pystr" where
  "join_space [] = []"
| "join_space [x] = x"
| "join_space (x # y # ys) = x @ [0x20] @ join_space (y # ys)"

text \<open>
  \<^verbatim>\<open>xs[:n]\<close> for a Python integer \<open>n\<close>: the first \<open>n\<close> items, and for a negative \<open>n\<close> all
  but the last \<open>-n\<close>.
\<close>

definition slice_to :: "'a list \<Rightarrow> int \<Rightarrow> 'a list" where
  "slice_to xs n = (if 0 \<le> n then take (nat n) xs else take (nat (int (length xs) + n)) xs)"


section \<open>The parsed document\<close>

text \<open>
  The tree that \<^verbatim>\<open>BeautifulSoup(text, 'html.parser')\<close> builds. A \<open>Tag\<close> has a name, its
  attributes (a dictionary, kept as an association list with the attribute values as
  written in the page) and its children in document order. A \<open>NavigableString\<close> is a piece
  of text. \<open>Comment\<close> stands for the strings that \<^verbatim>\<open>get_text\<close> leaves out (comments,
  declarations, processing instructions). The \<^verbatim>\<open>BeautifulSoup\<close> object itself is the
  \<open>Tag\<close> at the root.
\<close>

datatype node =
    NavigableString pystr
  | Comment pystr
  | Tag pystr "(pystr \<times> pystr) list" "node list"

text \<open>
  The source moves upwards from an element (\<^verbatim>\<open>find_parent\<close>). A tree value has no parent
  pointers, so an element that a search returns is kept together with its chain of
  parents, nearest first.
\<close>

type_synonym element = "node list \<times> node"

text \<open>\<^verbatim>\<open>Tag.descendants\<close>: every node below the element, in document order.\<close>

fun descendants :: "node list \<Rightarrow> node \<Rightarrow> element list" where
  "descendants parents (Tag name attrs cs) =
     concat (map (\<lambda>c. (Tag name attrs cs # parents, c) # descendants (Tag name attrs cs # parents) c) cs)"
| "descendants parents (NavigableString s) = []"
| "descendants parents (Comment s) = []"

text \<open>
  Matching of the search criteria of \<^verbatim>\<open>find\<close> and \<^verbatim>\<open>find_all\<close>. The name must be equal.
  For \<^verbatim>\<open>class_='c'\<close> the element must have a \<^verbatim>\<open>class\<close> attribute, and either one of its
  class names is \<open>c\<close> or the class names joined by single spaces are \<open>c\<close>.
\<close>

definition class_matches :: "(pystr \<times> pystr) list \<Rightarrow> pystr \<Rightarrow> bool" where
  "class_matches attrs c =
     (case map_of attrs (py ''class'') of
        None \<Rightarrow> False
      | Some v \<Rightarrow> (let names = nonwhitespace_runs [] v in c \<in> set names \<or> join_space names = c))"

fun matches :: "pystr \<Rightarrow> pystr option \<Rightarrow> node \<Rightarrow> bool" where
  "matches name cls (Tag n attrs cs) =
     (n = name \<and> (case cls of None \<Rightarrow> True | Some c \<Rightarrow> class_matches attrs c))"
| "matches name cls (NavigableString s) = False"
| "matches name cls (Comment s) = False"

definition find_all :: "element \<Rightarrow> pystr \<Rightarrow> pystr option \<Rightarrow> element list" where
  "find_all e name cls = filter (\<lambda>d. matches name cls (snd d)) (descendants (fst e) (snd e))"

text \<open>\<^verbatim>\<open>find\<close> is \<^verbatim>\<open>find_all\<close> with \<^verbatim>\<open>limit=1\<close>: the first match, or \<^verbatim>\<open>None\<close>.\<close>

definition find_first :: "element \<Rightarrow> pystr \<Rightarrow> pystr option \<Rightarrow> element option" where
  "find_first e name cls = (case find_all e name cls of [] \<Rightarrow> None | d # _ \<Rightarrow> Some d)"

text \<open>\<^verbatim>\<open>find_parent(name)\<close>: the nearest parent with that name, or \<^verbatim>\<open>None\<close>.\<close>

fun find_parent_in :: "node list \<Rightarrow> pystr \<Rightarrow> element option" where
  "find_parent_in [] name = None"
| "find_parent_in (p # ps) name =
     (if matches name None p then Some (ps, p) else find_parent_in ps name)"

definition find_parent :: "element \<Rightarrow> pystr \<Rightarrow> element option" where
  "find_parent e name = find_parent_in (fst e) name"

text \<open>
  \<^verbatim>\<open>get_text(strip=True)\<close>: every text string below the element, each one stripped, the
  empty ones dropped, joined with the empty separator.
\<close>

fun all_strings :: "node \<Rightarrow> pystr list" where
  "all_strings (NavigableString s) = [s]"
| "all_strings (Comment s) = []"
| "all_strings (Tag name attrs cs) = concat (map all_strings cs)"

definition get_text :: "element \<Rightarrow> pystr" where
  "get_text e = concat (filter (\<lambda>s. s \<noteq> []) (map strip (all_strings (snd e))))"

text \<open>\<^verbatim>\<open>tag[key] if tag.has_attr(key)\<close>, as an option.\<close>

fun get_attr :: "element \<Rightarrow> pystr \<Rightarrow> pystr option" where
  "get_attr (ps, Tag name attrs cs) key = map_of attrs key"
| "get_attr (ps, NavigableString s) key = None"
| "get_attr (ps, Comment s) key = None"


section \<open>Extraction of the ranking rows\<close>

text \<open>
  The sentinels of \<^verbatim>\<open>index.py\<close>, by code point. In English they read: no header info,
  no price info, no shipping info, no stock info, no shop name, no URL, no area info.
\<close>

definition no_info :: pystr where
  "no_info = [0x60C5, 0x5831, 0x306A, 0x3057]"

definition no_header_info :: pystr where
  "no_header_info = [0x30D8, 0x30C3, 0x30C0, 0x30FC] @ no_info"

definition no_price_info :: pystr where
  "no_price_info = [0x4FA1, 0x683C] @ no_info"

definition no_shipping_info :: pystr where
  "no_shipping_info = [0x914D, 0x9001] @ no_info"

definition no_stock_info :: pystr where
  "no_stock_info = [0x5728, 0x5EAB] @ no_info"

definition no_shop_name :: pystr where
  "no_shop_name = [0x30B7, 0x30E7, 0x30C3, 0x30D7, 0x540D, 0x306A, 0x3057]"

definition no_URL :: pystr where
  "no_URL = py ''URL'' @ [0x306A, 0x3057]"

definition no_area_info :: pystr where
  "no_area_info = [0x30A8, 0x30EA, 0x30A2] @ no_info"

text \<open>The dictionary appended to \<^verbatim>\<open>rankings\<close>: eight keys, each with a string.\<close>

record ranking_entry =
  Header :: pystr
  Rank :: pystr
  Price :: pystr
  Shipping :: pystr
  Stock :: pystr
  Shop_Name :: pystr
  Shop_URL :: pystr
  Shop_Area :: pystr

datatype error = AttributeError | FileNotFoundError | ValueError

definition get_header_text :: "node \<Rightarrow> pystr" where
  "get_header_text soup =
     (case find_first ([], soup) (py ''h1'') None of
        Some header \<Rightarrow> get_text header
      | None \<Rightarrow> no_header_info)"

text \<open>
  The body of the loop of \<^verbatim>\<open>extract_rankings\<close> once \<^verbatim>\<open>parent_tr\<close> is known (lines 93 to
  129). \<^verbatim>\<open>rank_number_tag.get_text\<close> has no guard: on \<^verbatim>\<open>None\<close> it raises
  \<^verbatim>\<open>AttributeError\<close>.
\<close>

definition row_entry :: "pystr \<Rightarrow> element \<Rightarrow> error + ranking_entry" where
  "row_entry header_text parent_tr =
     (case find_first parent_tr (py ''span'') (Some (py ''p-PTRank'')) of
        None \<Rightarrow> Inl AttributeError
      | Some rank_number_tag \<Rightarrow>
         (let rank_number_text = get_text rank_number_tag;
              price_tag = find_first parent_tr (py ''p'') (Some (py ''p-PTPrice_price''));
              price_sub_tag = find_first parent_tr (py ''p'') (Some (py ''p-PTPrice_sub''));
              price_sub_tag_text = (case price_sub_tag of Some t \<Rightarrow> get_text t | None \<Rightarrow> []);
              price_text =
                (case price_tag of
                   Some t \<Rightarrow>
                     (if price_sub_tag \<noteq> None then get_text t @ price_sub_tag_text
                      else no_price_info)
                 | None \<Rightarrow> no_price_info);
              shipping_tag = find_first parent_tr (py ''button'') (Some (py ''p-PTShipping_btn''));
              shipping_text =
                (case shipping_tag of Some t \<Rightarrow> get_text t | None \<Rightarrow> no_shipping_info);
              stock_tag = find_first parent_tr (py ''p'') (Some (py ''p-PTStock''));
              stock_text = (case stock_tag of Some t \<Rightarrow> get_text t | None \<Rightarrow> no_stock_info);
              shop_tag = find_first parent_tr (py ''a'') (Some (py ''p-PTShopData_name_link''));
              shop_name = (case shop_tag of Some t \<Rightarrow> get_text t | None \<Rightarrow> no_shop_name);
              shop_url =
                (case shop_tag of
                   Some t \<Rightarrow> (case get_attr t (py ''href'') of Some v \<Rightarrow> v | None \<Rightarrow> no_URL)
                 | None \<Rightarrow> no_URL);
              shop_area_tag =
                find_first parent_tr (py ''span'') (Some (py ''p-PTShopData_name_area''));
              shop_area_text =
                (case shop_area_tag of Some t \<Rightarrow> get_text t | None \<Rightarrow> no_area_info)
          in Inr \<lparr>Header = header_text, Rank = rank_number_text, Price = price_text,
                  Shipping = shipping_text, Stock = stock_text, Shop_Name = shop_name,
                  Shop_URL = shop_url, Shop_Area = shop_area_text\<rparr>))"

text \<open>
  The \<^verbatim>\<open>for\<close> loop over the markers: a marker with no enclosing \<^verbatim>\<open>tr\<close> is passed over
  (\<^verbatim>\<open>continue\<close>), any other appends one entry to \<^verbatim>\<open>rankings\<close>.
\<close>

fun rankings_loop :: "pystr \<Rightarrow> element list \<Rightarrow> ranking_entry list \<Rightarrow> error + ranking_entry list" where
  "rankings_loop header_text [] rankings = Inr rankings"
| "rankings_loop header_text (rank_section # rest) rankings =
     (case find_parent rank_section (py ''tr'') of
        None \<Rightarrow> rankings_loop header_text rest rankings
      | Some parent_tr \<Rightarrow>
         (case row_entry header_text parent_tr of
            Inl e \<Rightarrow> Inl e
          | Inr entry \<Rightarrow> rankings_loop header_text rest (rankings @ [entry])))"

definition extract_rankings :: "node \<Rightarrow> int \<Rightarrow> error + ranking_entry list" where
  "extract_rankings soup top_n =
     (let ranking_sections = find_all ([], soup) (py ''span'') (Some (py ''p-PTRank''))
      in if ranking_sections = [] then Inr []
         else rankings_loop (get_header_text soup) (slice_to ranking_sections top_n) [])"


section \<open>Fetching the page\<close>

text \<open>
  What \<^verbatim>\<open>requests.get\<close> gives for a URL: an exception of the class
  \<^verbatim>\<open>RequestException\<close> (no connection, time-out, malformed URL), or a response with its
  status code and its body. The body is decoded with the detected encoding, undecodable
  bytes being replaced, so decoding does not fail. The network and the parser are outside
  the repository and are parameters of the model.
\<close>

datatype get_result = RequestException | Response nat pystr

definition headers :: "(pystr \<times> pystr) list" where
  "headers = [(py ''User-Agent'', py ''Mozilla/5.0 (Windows NT 10.0; Win64; x64)'')]"

text \<open>\<^verbatim>\<open>raise_for_status\<close> raises \<^verbatim>\<open>HTTPError\<close>, a \<^verbatim>\<open>RequestException\<close>, for 4xx and 5xx.\<close>

definition fetch_html ::
  "(pystr \<Rightarrow> node) \<Rightarrow> (pystr \<Rightarrow> (pystr \<times> pystr) list \<Rightarrow> get_result) \<Rightarrow>
   pystr \<Rightarrow> (pystr \<times> pystr) list \<Rightarrow> node option" where
  "fetch_html parser requests_get target_url hdrs =
     (case requests_get target_url hdrs of
        RequestException \<Rightarrow> None
      | Response status_code text \<Rightarrow>
          (if 400 \<le> status_code \<and> status_code < 600 then None else Some (parser text)))"


section \<open>Persistence\<close>

text \<open>
  The file system as the program sees it: the directories known to exist and the files
  written so far, in the order of the writes. What a file holds is kept symbolically: the
  text of a document (\<^verbatim>\<open>str(soup)\<close>) or the CSV text of a table of entries. Paths are
  POSIX paths. The process may create any directory and write any file: permissions,
  full disks and name clashes between files and directories are not modelled. Console
  output (\<^verbatim>\<open>print\<close>) is not modelled.
\<close>

datatype file_content = Html node | Csv "ranking_entry list"

record files =
  dirs :: "pystr set"
  writes :: "(pystr \<times> file_content) list"

definition sep :: nat where
  "sep = 0x2F"

text \<open>
  \<^verbatim>\<open>os.path.dirname\<close>: the path up to its last slash; trailing slashes of that head are
  removed unless it consists of slashes only.
\<close>

definition dirname :: "pystr \<Rightarrow> pystr" where
  "dirname p =
     (let head = rev (dropWhile (\<lambda>c. c \<noteq> sep) (rev p))
      in if head \<noteq> [] \<and> head \<noteq> replicate (length head) sep
         then rev (dropWhile (\<lambda>c. c = sep) (rev head))
         else head)"

text \<open>
  \<^verbatim>\<open>os.makedirs(name, exist_ok=True)\<close>: the empty name raises \<^verbatim>\<open>FileNotFoundError\<close>; a
  directory that exists already is accepted, one that does not is created.
\<close>

definition makedirs :: "pystr \<Rightarrow> files \<Rightarrow> (error + unit) \<times> files" where
  "makedirs name fs =
     (if name = [] then (Inl FileNotFoundError, fs)
      else (Inr (), fs\<lparr>dirs := insert name (dirs fs)\<rparr>))"

definition write_file :: "pystr \<Rightarrow> file_content \<Rightarrow> files \<Rightarrow> files" where
  "write_file filepath content fs = fs\<lparr>writes := writes fs @ [(filepath, content)]\<rparr>"

definition save_html :: "node \<Rightarrow> pystr \<Rightarrow> files \<Rightarrow> (error + unit) \<times> files" where
  "save_html soup filepath fs =
     (case makedirs (dirname filepath) fs of
        (Inl e, fs1) \<Rightarrow> (Inl e, fs1)
      | (Inr _, fs1) \<Rightarrow> (Inr (), write_file filepath (Html soup) fs1))"

text \<open>The argument \<^verbatim>\<open>data\<close> of \<^verbatim>\<open>save_to_csv\<close>: a dictionary, a list, or anything else.\<close>

datatype csv_data = DictData ranking_entry | ListData "ranking_entry list" | OtherData

definition save_to_csv :: "csv_data \<Rightarrow> pystr \<Rightarrow> files \<Rightarrow> (error + unit) \<times> files" where
  "save_to_csv data filepath fs =
     (case makedirs (dirname filepath) fs of
        (Inl e, fs1) \<Rightarrow> (Inl e, fs1)
      | (Inr _, fs1) \<Rightarrow>
          (case data of
             DictData d \<Rightarrow> (Inr (), write_file filepath (Csv [d]) fs1)
           | ListData l \<Rightarrow> (Inr (), write_file filepath (Csv l) fs1)
           | OtherData \<Rightarrow> (Inl ValueError, fs1)))"


section \<open>The pipeline and the request handler\<close>

text \<open>
  \<^verbatim>\<open>scrape_urls\<close> has one \<^verbatim>\<open>return\<close> statement, without a value, and otherwise runs off
  its end: what it returns is \<^verbatim>\<open>None\<close> on every path. Its caller tests the result for
  \<^verbatim>\<open>None\<close> and for emptiness, so the result type is an optional list.
\<close>

definition scrape_urls ::
  "(pystr \<Rightarrow> node) \<Rightarrow> (pystr \<Rightarrow> (pystr \<times> pystr) list \<Rightarrow> get_result) \<Rightarrow>
   pystr \<Rightarrow> pystr \<Rightarrow> pystr \<Rightarrow> files \<Rightarrow> (error + ranking_entry list option) \<times> files" where
  "scrape_urls parser requests_get target_url output_html rankings_csv fs =
     (case fetch_html parser requests_get target_url headers of
        None \<Rightarrow> (Inr None, fs)
      | Some soup \<Rightarrow>
          (case save_html soup output_html fs of
             (Inl e, fs1) \<Rightarrow> (Inl e, fs1)
           | (Inr _, fs1) \<Rightarrow>
               (case extract_rankings soup 20 of
                  Inl e \<Rightarrow> (Inl e, fs1)
                | Inr rankings \<Rightarrow>
                    (if rankings \<noteq> []
                     then (case save_to_csv (ListData rankings) rankings_csv fs1 of
                             (Inl e, fs2) \<Rightarrow> (Inl e, fs2)
                           | (Inr _, fs2) \<Rightarrow> (Inr None, fs2))
                     else (Inr None, fs1)))))"

text \<open>
  The responses of \<^verbatim>\<open>scrape_api\<close>: the JSON body and the status code. The three bodies
  with a fixed message are constants.
\<close>

datatype json = Error_itemId_required | Error_fetch_failed | Message_no_rankings
  | Rankings "ranking_entry list"

text \<open>\<^verbatim>\<open>request.args.get('itemId')\<close> is \<^verbatim>\<open>None\<close> when the parameter is absent.\<close>

definition scrape_api ::
  "(pystr \<Rightarrow> node) \<Rightarrow> (pystr \<Rightarrow> (pystr \<times> pystr) list \<Rightarrow> get_result) \<Rightarrow>
   pystr option \<Rightarrow> files \<Rightarrow> (error + json \<times> nat) \<times> files" where
  "scrape_api parser requests_get item_id_arg fs =
     (case item_id_arg of
        None \<Rightarrow> (Inr (Error_itemId_required, 400), fs)
      | Some item_id \<Rightarrow>
          (if item_id = [] then (Inr (Error_itemId_required, 400), fs)
           else
             (let output_html = py ''data/fetched_'' @ item_id @ py ''.html'';
                  rankings_csv = py ''data/top10_rankings_'' @ item_id @ py ''.csv''
              in case scrape_urls parser requests_get item_id output_html rankings_csv fs of
                   (Inl e, fs1) \<Rightarrow> (Inl e, fs1)
                 | (Inr None, fs1) \<Rightarrow> (Inr (Error_fetch_failed, 500), fs1)
                 | (Inr (Some rankings), fs1) \<Rightarrow>
                     (if rankings = [] then (Inr (Message_no_rankings, 404), fs1)
                      else (Inr (Rankings rankings, 200), fs1)))))"


section \<open>Notions used in the statements\<close>

text \<open>The markers of a page, in document order (line 79 of \<^verbatim>\<open>index.py\<close>).\<close>

definition ranking_sections :: "node \<Rightarrow> element list" where
  "ranking_sections soup = find_all ([], soup) (py ''span'') (Some (py ''p-PTRank''))"

text \<open>The enclosing rows of those markers that have one, in the order of the markers.\<close>

definition enclosing_rows :: "element list \<Rightarrow> element list" where
  "enclosing_rows ms = List.map_filter (\<lambda>m. find_parent m (py ''tr'')) ms"

text \<open>The nodes below a node, without their parent chains.\<close>

definition below :: "node \<Rightarrow> node set" where
  "below t = snd ` set (descendants [] t)"


section \<open>Example pages\<close>

definition text_tag :: "string \<Rightarrow> string \<Rightarrow> pystr \<Rightarrow> node" where
  "text_tag name cls s = Tag (py name) [(py ''class'', py cls)] [NavigableString s]"

definition soup_of :: "node list \<Rightarrow> node" where
  "soup_of cs = Tag (py ''[document]'') [] cs"

text \<open>Scenario A of the specification: one complete row under a heading.\<close>

definition row_A :: node where
  "row_A = Tag (py ''tr'') []
     [Tag (py ''td'') [] [text_tag ''span'' ''p-PTRank'' (py '' 1 '')],
      Tag (py ''td'') []
        [text_tag ''p'' ''p-PTPrice_price'' (0xA5 # py ''1,000''),
         text_tag ''p'' ''p-PTPrice_sub'' (py ''(tax incl.)'')],
      Tag (py ''td'') [] [text_tag ''button'' ''p-PTShipping_btn'' (py ''Free'')],
      Tag (py ''td'') [] [text_tag ''p'' ''p-PTStock'' (py ''In stock'')],
      Tag (py ''td'') []
        [Tag (py ''a'') [(py ''class'', py ''p-PTShopData_name_link''),
                         (py ''href'', py ''https://shopa.example'')]
           [NavigableString (py ''Shop A'')],
         text_tag ''span'' ''p-PTShopData_name_area'' (py ''Tokyo'')]]"

definition soup_A :: node where
  "soup_A = soup_of [Tag (py ''h1'') [] [NavigableString (py ''Widget X'')],
                     Tag (py ''table'') [] [row_A]]"

definition entry_A :: ranking_entry where
  "entry_A = \<lparr>Header = py ''Widget X'', Rank = py ''1'', Price = 0xA5 # py ''1,000(tax incl.)'',
              Shipping = py ''Free'', Stock = py ''In stock'', Shop_Name = py ''Shop A'',
              Shop_URL = py ''https://shopa.example'', Shop_Area = py ''Tokyo''\<rparr>"

text \<open>A page with a heading and no ranking marker.\<close>

definition soup_no_markers :: node where
  "soup_no_markers = soup_of [Tag (py ''h1'') [] [NavigableString (py ''Widget X'')]]"

text \<open>A page whose only marker is not inside a table row.\<close>

definition soup_no_row :: node where
  "soup_no_row = soup_of [Tag (py ''div'') [] [text_tag ''span'' ''p-PTRank'' (py ''1'')]]"

text \<open>
  A row with two markers, the first one without text, a primary price with no secondary
  price, and nothing else.
\<close>

definition soup_two_markers :: node where
  "soup_two_markers = soup_of [Tag (py ''tr'') []
     [Tag (py ''span'') [(py ''class'', py ''p-PTRank'')] [],
      text_tag ''span'' ''p-PTRank top'' (py ''2''),
      text_tag ''p'' ''p-PTPrice_price'' (py ''100'')]]"

definition empty_files :: files where
  "empty_files = \<lparr>dirs = {}, writes = []\<rparr>"

text \<open>The marker of \<open>soup_no_row\<close>, with its parents.\<close>

definition marker_no_row :: element where
  "marker_no_row =
     ([Tag (py ''div'') [] [text_tag ''span'' ''p-PTRank'' (py ''1'')], soup_no_row],
      text_tag ''span'' ''p-PTRank'' (py ''1''))"


section \<open>Properties of the tree operations and of the loop\<close>

lemma descendants_nodes: "map snd (descendants ps t) = map snd (descendants qs t)"
proof (induction t arbitrary: ps qs)
  case (Tag name attrs cs)
  have "map snd (descendants (Tag name attrs cs # ps) c) = map snd (descendants (Tag name attrs cs # qs) c)"
    if "c \<in> set cs" for c
    using Tag.IH [OF that] .
  then show ?case
    by (simp add: map_concat o_def cong: map_cong)
qed simp_all

lemma below_descendants: "snd ` set (descendants ps t) = below t"
  unfolding below_def using descendants_nodes [of ps t "[]"]
  by (metis set_map)

lemma below_child: "c \<in> set cs \<Longrightarrow> c \<in> below (Tag name attrs cs)"
  by (force simp: below_def)

lemma below_trans_child: "c \<in> set cs \<Longrightarrow> d \<in> below c \<Longrightarrow> d \<in> below (Tag name attrs cs)"
proof -
  assume c: "c \<in> set cs" and d: "d \<in> below c"
  from d have "d \<in> snd ` set (descendants [Tag name attrs cs] c)"
    by (simp add: below_descendants)
  with c show ?thesis
    by (force simp: below_def)
qed

lemma descendants_chain:
  "(ps', d) \<in> set (descendants ps t) \<Longrightarrow>
     \<exists>path. ps' = path @ ps \<and> (\<forall>p \<in> set path. d \<in> below p)"
proof (induction t arbitrary: ps ps' d)
  case (Tag name attrs cs)
  let ?T = "Tag name attrs cs"
  from Tag.prems obtain c where c: "c \<in> set cs"
    and disj: "(ps', d) = (?T # ps, c) \<or> (ps', d) \<in> set (descendants (?T # ps) c)"
    by auto
  from disj show ?case
  proof
    assume "(ps', d) = (?T # ps, c)"
    with c have "ps' = [?T] @ ps" and "\<forall>p \<in> set [?T]. d \<in> below p"
      by (simp_all add: below_child)
    then show ?thesis by blast
  next
    assume in_c: "(ps', d) \<in> set (descendants (?T # ps) c)"
    from Tag.IH [OF c in_c] obtain path where
      path: "ps' = path @ ?T # ps" and all: "\<forall>p \<in> set path. d \<in> below p"
      by blast
    from in_c have "d \<in> below c"
      using below_descendants [of "?T # ps" c] by force
    with c have "d \<in> below ?T" by (rule below_trans_child)
    with path all have "ps' = (path @ [?T]) @ ps" and "\<forall>p \<in> set (path @ [?T]). d \<in> below p"
      by auto
    then show ?thesis by blast
  qed
qed simp_all

lemma find_parent_in_mem: "find_parent_in ps name = Some (qs, p) \<Longrightarrow> p \<in> set ps"
  by (induction ps) (auto split: if_splits)

lemma marker_below_row:
  assumes m: "m \<in> set (ranking_sections soup)"
    and r: "find_parent m (py ''tr'') = Some parent_tr"
  shows "snd m \<in> below (snd parent_tr)"
proof -
  obtain ps d where md: "m = (ps, d)" by (cases m)
  obtain qs p where rp: "parent_tr = (qs, p)" by (cases parent_tr)
  from m md have "(ps, d) \<in> set (descendants [] soup)"
    by (simp add: ranking_sections_def find_all_def)
  from descendants_chain [OF this] have all: "\<forall>p \<in> set ps. d \<in> below p"
    by simp
  from r md rp have "p \<in> set ps"
    by (simp add: find_parent_def find_parent_in_mem)
  with all md rp show ?thesis by simp
qed

lemma find_first_below:
  assumes "d \<in> below (snd e)" and "matches name cls d"
  shows "find_first e name cls \<noteq> None"
proof -
  from assms(1) have "d \<in> snd ` set (descendants (fst e) (snd e))"
    by (simp add: below_descendants)
  with assms(2) have "find_all e name cls \<noteq> []"
    by (auto simp: find_all_def filter_empty_conv)
  then show ?thesis
    by (simp add: find_first_def split: list.splits)
qed

lemma marker_matches: "m \<in> set (ranking_sections soup) \<Longrightarrow> matches (py ''span'') (Some (py ''p-PTRank'')) (snd m)"
  by (simp add: ranking_sections_def find_all_def)

lemma row_has_marker:
  assumes "m \<in> set (ranking_sections soup)" and "find_parent m (py ''tr'') = Some parent_tr"
  shows "find_first parent_tr (py ''span'') (Some (py ''p-PTRank'')) \<noteq> None"
  using find_first_below [OF marker_below_row [OF assms] marker_matches [OF assms(1)]] .

lemma row_entry_total:
  "find_first parent_tr (py ''span'') (Some (py ''p-PTRank'')) \<noteq> None \<Longrightarrow> \<exists>entry. row_entry h parent_tr = Inr entry"
  by (auto simp: row_entry_def Let_def)


lemma enclosing_rows_Nil: "enclosing_rows [] = []"
  by (simp add: enclosing_rows_def)

lemma enclosing_rows_Cons:
  "enclosing_rows (m # ms) =
     (case find_parent m (py ''tr'') of None \<Rightarrow> enclosing_rows ms | Some r \<Rightarrow> r # enclosing_rows ms)"
  by (simp add: enclosing_rows_def split: option.splits)

lemma enclosing_rows_append: "enclosing_rows (xs @ ys) = enclosing_rows xs @ enclosing_rows ys"
  by (induction xs) (simp_all add: enclosing_rows_Nil enclosing_rows_Cons split: option.splits)

lemma length_enclosing_rows:
  "length (enclosing_rows ms) = length (filter (\<lambda>m. find_parent m (py ''tr'') \<noteq> None) ms)"
  by (induction ms) (simp_all add: enclosing_rows_Nil enclosing_rows_Cons split: option.splits)

lemma rankings_loop_rows:
  assumes "\<forall>m \<in> set ms. \<forall>r. find_parent m (py ''tr'') = Some r \<longrightarrow> (\<exists>e. row_entry h r = Inr e)"
  shows "\<exists>es. rankings_loop h ms acc = Inr (acc @ es) \<and>
              map Inr es = map (row_entry h) (enclosing_rows ms)"
  using assms
proof (induction ms arbitrary: acc)
  case Nil
  then show ?case by (simp add: enclosing_rows_Nil)
next
  case (Cons m ms)
  show ?case
  proof (cases "find_parent m (py ''tr'')")
    case None
    from Cons.prems have "\<forall>m \<in> set ms. \<forall>r. find_parent m (py ''tr'') = Some r \<longrightarrow> (\<exists>e. row_entry h r = Inr e)"
      by (metis list.set_intros(2))
    from Cons.IH [OF this, of acc] None show ?thesis
      by (simp add: enclosing_rows_Cons)
  next
    case (Some r)
    from Cons.prems have "find_parent m (py ''tr'') = Some r \<longrightarrow> (\<exists>e. row_entry h r = Inr e)"
      by (metis list.set_intros(1))
    with Some obtain e where e: "row_entry h r = Inr e"
      by blast
    from Cons.prems have rest: "\<forall>m \<in> set ms. \<forall>r. find_parent m (py ''tr'') = Some r \<longrightarrow> (\<exists>e. row_entry h r = Inr e)"
      by (metis list.set_intros(2))
    from Cons.IH [OF rest, of "acc @ [e]"] obtain es where
      "rankings_loop h ms (acc @ [e]) = Inr ((acc @ [e]) @ es)"
      "map Inr es = map (row_entry h) (enclosing_rows ms)"
      by blast
    with Some e have "rankings_loop h (m # ms) acc = Inr (acc @ (e # es))"
      and "map Inr (e # es) = map (row_entry h) (enclosing_rows (m # ms))"
      by (simp_all add: enclosing_rows_Cons)
    then show ?thesis by blast
  qed
qed

lemma set_slice_to: "set (slice_to xs n) \<subseteq> set xs"
  by (auto simp: slice_to_def dest: in_set_takeD)

lemma extract_rankings_rows:
  "\<exists>es. extract_rankings soup top_n = Inr es \<and>
        map Inr es = map (row_entry (get_header_text soup))
                       (enclosing_rows (slice_to (ranking_sections soup) top_n))"
proof (cases "ranking_sections soup = []")
  case True
  then show ?thesis
    by (simp add: extract_rankings_def ranking_sections_def [symmetric] slice_to_def enclosing_rows_Nil)
next
  case False
  let ?ms = "slice_to (ranking_sections soup) top_n"
  have "\<forall>m \<in> set ?ms. \<forall>r. find_parent m (py ''tr'') = Some r \<longrightarrow>
          (\<exists>e. row_entry (get_header_text soup) r = Inr e)"
  proof (intro ballI allI impI)
    fix m r
    assume "m \<in> set ?ms" and r: "find_parent m (py ''tr'') = Some r"
    with set_slice_to [of "ranking_sections soup" top_n] have "m \<in> set (ranking_sections soup)"
      by blast
    from row_entry_total [OF row_has_marker [OF this r]]
    show "\<exists>e. row_entry (get_header_text soup) r = Inr e" .
  qed
  from rankings_loop_rows [OF this, of "[]"] False show ?thesis
    by (simp add: extract_rankings_def ranking_sections_def [symmetric])
qed

lemma extract_rankings_entry:
  assumes "extract_rankings soup top_n = Inr es" and "i < length es"
    and "rows = enclosing_rows (slice_to (ranking_sections soup) top_n)"
  shows "i < length rows \<and> row_entry (get_header_text soup) (rows ! i) = Inr (es ! i)"
proof -
  from extract_rankings_rows [of soup top_n] assms(1,3)
  have eq: "map Inr es = map (row_entry (get_header_text soup)) rows"
    by auto
  then have len: "length es = length rows"
    by (metis length_map)
  with assms(2) have i: "i < length rows" by simp
  from eq have "map Inr es ! i = map (row_entry (get_header_text soup)) rows ! i"
    by simp
  with assms(2) i show ?thesis by simp
qed

section \<open>Markers without a row\<close>

text \<open>
  C7. A marker that has no enclosing row (\<^verbatim>\<open>find_parent('tr')\<close> is \<^verbatim>\<open>None\<close>) contributes
  no entry: the loop over the markers gives the same result as the loop over the markers
  without it, whatever comes before and after it and whatever has been collected so far.
\<close>

theorem marker_without_row_skipped:
  assumes "find_parent m (py ''tr'') = None"
  shows "rankings_loop h (before @ m # after) acc = rankings_loop h (before @ after) acc"
  using assms
  by (induction before arbitrary: acc) (simp_all split: option.splits sum.splits)

theorem marker_without_row_skipped_witness:
  "find_parent marker_no_row (py ''tr'') = None \<and>
   rankings_loop no_header_info [marker_no_row] [] = Inr []"
proof -
  have none: "find_parent marker_no_row (py ''tr'') = None"
    by (simp add: marker_no_row_def find_parent_def soup_no_row_def soup_of_def text_tag_def py_def)
  from marker_without_row_skipped [OF none, of no_header_info "[]" "[]" "[]"] none
  show ?thesis by simp
qed

end
